theory Spec2Isabelle
  imports Main
begin

section \<open>The WebUntis client of the Refundable backend (package untis)\<close>

text \<open>
  The package keeps one \<open>Client\<close> struct per user, talks JSON-RPC to the remote
  timetabling service and rebuilds lessons from packed integers. Go's \<open>int\<close> is
  modelled by \<open>int\<close>; every value that occurs below stays far inside 64 bits except
  where \<open>Atoi\<close> clamps, which is written out. Strings are byte lists.
\<close>

subsection \<open>Wall-clock values and the period tables\<close>

text \<open>
  The fields of a \<open>time.Time\<close> that the package reads (\<open>Year()\<close>, \<open>Month()\<close>,
  \<open>Day()\<close>, \<open>Hour()\<close>, \<open>Minute()\<close>), and the arguments it hands to \<open>time.Date\<close>.
\<close>

record Time =
  Year :: int
  Month :: int
  Day :: int
  Hour :: int
  Minute :: int

text \<open>
  \<open>GetLessonNrByStart\<close>: a Go \<open>switch\<close> has no fall-through, so an hour-8 or
  hour-17 case whose minute matches neither branch leaves the switch and reaches the final
  \<open>return -1\<close>.
\<close>

definition GetLessonNrByStart :: "Time \<Rightarrow> int" where
  "GetLessonNrByStart start =
     (if Hour start = 8 then
        (if Minute start = 0 then 1 else if Minute start = 50 then 2 else -1)
      else if Hour start = 9 then 3
      else if Hour start = 10 then 4
      else if Hour start = 11 then 5
      else if Hour start = 12 then 6
      else if Hour start = 13 then 7
      else if Hour start = 14 then 8
      else if Hour start = 15 then 9
      else if Hour start = 16 then 10
      else if Hour start = 17 then
        (if Minute start = 0 then 11 else if Minute start = 45 then 12 else -1)
      else if Hour start = 18 then 13
      else if Hour start = 19 then 14
      else if Hour start = 20 then 15
      else -1)"

definition GetLessonNrByEnd :: "Time \<Rightarrow> int" where
  "GetLessonNrByEnd end_t =
     (if Hour end_t = 8 then 1
      else if Hour end_t = 9 then 2
      else if Hour end_t = 10 then 3
      else if Hour end_t = 11 then 4
      else if Hour end_t = 12 then 5
      else if Hour end_t = 13 then 6
      else if Hour end_t = 14 then 7
      else if Hour end_t = 15 then 8
      else if Hour end_t = 16 then
        (if Minute end_t = 0 then 9 else if Minute end_t = 50 then 10 else -1)
      else if Hour end_t = 17 then 11
      else if Hour end_t = 18 then 12
      else if Hour end_t = 19 then 13
      else if Hour end_t = 20 then 14
      else if Hour end_t = 21 then 15
      else -1)"

text \<open>
  The two period tables as the specification words them: ranges of hours mapped
  one-to-one onto ranges of periods, two hours split by the minute, and the sentinel
  \<open>-1\<close> for everything else.
\<close>

definition periodFromStart :: "int \<Rightarrow> int \<Rightarrow> int" where
  "periodFromStart h m =
     (if h = 8 \<and> m = 0 then 1
      else if h = 8 \<and> m = 50 then 2
      else if 9 \<le> h \<and> h \<le> 16 then h - 6
      else if h = 17 \<and> m = 0 then 11
      else if h = 17 \<and> m = 45 then 12
      else if 18 \<le> h \<and> h \<le> 20 then h - 5
      else -1)"

definition periodFromEnd :: "int \<Rightarrow> int \<Rightarrow> int" where
  "periodFromEnd h m =
     (if 8 \<le> h \<and> h \<le> 15 then h - 7
      else if h = 16 \<and> m = 0 then 9
      else if h = 16 \<and> m = 50 then 10
      else if 17 \<le> h \<and> h \<le> 21 then h - 6
      else -1)"

subsection \<open>Library functions: \<open>strconv\<close> and \<open>strings\<close>\<close>

text \<open>
  \<open>strconv.Itoa\<close>: the decimal digits, most significant first, with a minus sign for a
  negative number.
\<close>

definition digit_char :: "nat \<Rightarrow> char" where
  "digit_char d = char_of (48 + d)"

fun digits :: "nat \<Rightarrow> string" where
  "digits n = (if n < 10 then [digit_char n] else digits (n div 10) @ [digit_char (n mod 10)])"

declare digits.simps [simp del]

definition Itoa :: "int \<Rightarrow> string" where
  "Itoa i = (if i < 0 then CHR ''-'' # digits (nat (- i)) else digits (nat i))"

text \<open>
  \<open>strconv.Atoi\<close> returns a value and an error; the package always drops the error, so
  the model returns the value and a flag. The empty string is a syntax error. An optional
  sign is taken off; what remains must be non-empty. It is read left to right as
  \<open>ParseUint\<close> does: a character that is not a decimal digit is a syntax error, and a
  digit that would carry the number beyond 64 unsigned bits ends the reading at once with
  a range error, whatever follows. A syntax error has value 0. A range error, or a number
  that does not fit the signed 64-bit range, has the nearest bound as its value. (Strings
  of fewer than 19 characters take a separate path in Go, with the same outcome.)
\<close>

definition maxInt :: int where
  "maxInt = 9223372036854775807"

definition minInt :: int where
  "minInt = - 9223372036854775808"

definition maxUint64 :: int where
  "maxUint64 = 18446744073709551615"

definition digit_val :: "char \<Rightarrow> nat option" where
  "digit_val c =
     (let k = (of_char c :: nat) in if 48 \<le> k \<and> k \<le> 57 then Some (k - 48) else None)"

datatype parsed = SyntaxErr | RangeErr | Value int

fun parseUint :: "string \<Rightarrow> int \<Rightarrow> parsed" where
  "parseUint [] n = Value n"
| "parseUint (c # cs) n =
     (case digit_val c of
        None \<Rightarrow> SyntaxErr
      | Some d \<Rightarrow>
          if maxUint64 div 10 + 1 \<le> n then RangeErr
          else if maxUint64 < n * 10 + int d then RangeErr
          else parseUint cs (n * 10 + int d))"

definition strip_sign :: "string \<Rightarrow> bool \<times> string" where
  "strip_sign s =
     (case s of
        [] \<Rightarrow> (False, [])
      | c # cs \<Rightarrow>
          if c = CHR ''-'' then (True, cs)
          else if c = CHR ''+'' then (False, cs)
          else (False, s))"

definition Atoi :: "string \<Rightarrow> int \<times> bool" where
  "Atoi s =
     (let (neg, body) = strip_sign s in
      if body = [] then (0, False)
      else
        (case parseUint body 0 of
           SyntaxErr \<Rightarrow> (0, False)
         | RangeErr \<Rightarrow> (if neg then minInt else maxInt, False)
         | Value n \<Rightarrow>
             if \<not> neg \<and> maxInt < n then (maxInt, False)
             else if neg \<and> - n < minInt then (minInt, False)
             else (if neg then - n else n, True)))"

text \<open>
  \<open>strings.Split(s, " ")\<close>: cut at every space; the result always has at least one
  element, and \<open>n\<close> spaces give \<open>n + 1\<close> elements.
\<close>

fun SplitSpace :: "string \<Rightarrow> string list" where
  "SplitSpace [] = [[]]"
| "SplitSpace (c # cs) =
     (if c = CHR '' '' then [] # SplitSpace cs
      else (case SplitSpace cs of [] \<Rightarrow> [[c]] | x # xs \<Rightarrow> (c # x) # xs))"

text \<open>
  \<open>strings.ToUpper\<close> maps every Unicode letter to its upper case, by tables that are
  not part of this repository. The functions that call it therefore take it as their
  first argument \<open>toUpper\<close>. On a string of ASCII bytes \<open>strings.ToUpper\<close> moves the
  letters \<open>a\<close> to \<open>z\<close> to \<open>A\<close> to \<open>Z\<close> and leaves every other byte;
  \<open>ToUpperASCII\<close> is that function, and it is applied to ASCII strings only.
\<close>

definition upper_char :: "char \<Rightarrow> char" where
  "upper_char c =
     (let k = (of_char c :: nat) in if 97 \<le> k \<and> k \<le> 122 then char_of (k - 32) else c)"

definition ToUpperASCII :: "string \<Rightarrow> string" where
  "ToUpperASCII s = map upper_char s"

definition isASCII :: "string \<Rightarrow> bool" where
  "isASCII s = list_all (\<lambda>c. (of_char c :: nat) < 128) s"

subsection \<open>Packed times\<close>

text \<open>
  The timetable loop turns a packed time into its decimal string and slices it:
  \<open>s[0 : len(s)-2]\<close> is the hour, \<open>s[len(s)-2:]\<close> the minute, both through \<open>Atoi\<close>
  with the error dropped. A string shorter than two characters makes the slice bound
  negative, which is a run-time panic.
\<close>

datatype error =
    AlreadyAuthenticated
  | NotAuthenticated
  | IdsNotMatching
  | TeacherNotFound
  | ClassNotFound
  | NetworkError
  | JSONError
  | Panic

definition decodeTime :: "int \<Rightarrow> error + (int \<times> int)" where
  "decodeTime t =
     (let s = Itoa t in
      if length s < 2 then Inl Panic
      else Inr (fst (Atoi (take (length s - 2) s)), fst (Atoi (drop (length s - 2) s))))"

subsection \<open>The client, the wire and the remote service\<close>

record Client =
  Username :: string
  Password :: string
  SessionID :: string
  PersonType :: int
  PersonID :: int
  Closed :: bool
  Authenticated :: bool

text \<open>
  One JSON-RPC request as it leaves the process: the correlation id drawn from
  \<open>rand.Intn\<close>, the method, the parameters, and the value given to \<open>AddCookie\<close> for
  the \<open>JSESSIONID\<close> cookie (\<open>Authenticate\<close> posts without a cookie).
\<close>

datatype params =
    NoParams
  | AuthParams string string string
  | TimetableParams int int string string

record request =
  req_id :: int
  req_method :: string
  req_params :: params
  req_cookie :: "string option"

text \<open>
  The records of the listings and of the timetable, with the fields the code reads (the
  colour fields and the class teachers are decoded and never used).
\<close>

record teacher =
  t_ID :: int
  t_Name :: string
  t_ForeName :: string
  t_LongName :: string

record room =
  r_ID :: int
  r_Name :: string
  r_LongName :: string

record klasse =
  k_ID :: int
  k_Name :: string
  k_LongName :: string

record rawLesson =
  l_ID :: int
  l_Date :: int
  l_StartTime :: int
  l_EndTime :: int
  l_Kl :: "int list"
  l_Te :: "int list"
  l_Su :: "int list"
  l_Ro :: "int list"

text \<open>
  What a reply decodes to. \<open>AuthResult\<close> is the result object of \<open>authenticate\<close> with
  its three entries, each possibly absent or of another type (\<open>None\<close>); the numbers are
  taken after the conversion to \<open>int\<close>. A result of another shape than the one the
  caller decodes into is a decoding error; an absent result decodes to the empty value.
\<close>

datatype payload =
    NoResult
  | AuthResult "string option" "int option" "int option"
  | TeacherList "teacher list"
  | RoomList "room list"
  | KlassenList "klasse list"
  | TimetableList "rawLesson list"

text \<open>
  The outcome of one round trip: the transport fails, reading the body fails, the body is
  not the expected JSON, or it is an envelope with the \<open>id\<close> string and a result.
\<close>

datatype reply =
    TransportError
  | ReadError
  | Garbage
  | Envelope string payload

text \<open>
  Everything outside the process. \<open>rand k\<close> is the id that \<open>rand.Intn\<close> yields for
  the request after \<open>k\<close> earlier ones, \<open>server k req\<close> the service's answer to it,
  and \<open>sent\<close> the requests issued so far, oldest first. Every network call appends to
  \<open>sent\<close>, and nothing else does.
\<close>

record world =
  rand :: "nat \<Rightarrow> int"
  server :: "nat \<Rightarrow> request \<Rightarrow> reply"
  sent :: "request list"

definition roundTrip :: "request \<Rightarrow> world \<Rightarrow> reply \<times> world" where
  "roundTrip req w = (server w (length (sent w)) req, w\<lparr>sent := sent w @ [req]\<rparr>)"

definition sendRequest :: "Client \<Rightarrow> string \<Rightarrow> params \<Rightarrow> world \<Rightarrow> (reply \<times> int) \<times> world" where
  "sendRequest client method ps w =
     (let qid = rand w (length (sent w));
          req = \<lparr>req_id = qid, req_method = method, req_params = ps,
                 req_cookie = Some (SessionID client)\<rparr>;
          (resp, w') = roundTrip req w
      in ((resp, qid), w'))"

text \<open>The steps every caller takes on a reply before its own decoding.\<close>

definition readEnvelope :: "reply \<Rightarrow> error + (string \<times> payload)" where
  "readEnvelope r =
     (case r of
        TransportError \<Rightarrow> Inl NetworkError
      | ReadError \<Rightarrow> Inl NetworkError
      | Garbage \<Rightarrow> Inl JSONError
      | Envelope rid res \<Rightarrow> Inr (rid, res))"

definition asAuth :: "payload \<Rightarrow> error + (string option \<times> int \<times> int)" where
  "asAuth p =
     (case p of
        NoResult \<Rightarrow> Inr (None, 0, 0)
      | AuthResult sid pt pid \<Rightarrow>
          Inr (sid, (case pt of None \<Rightarrow> 0 | Some v \<Rightarrow> v), (case pid of None \<Rightarrow> 0 | Some v \<Rightarrow> v))
      | _ \<Rightarrow> Inl JSONError)"

definition asTeachers :: "payload \<Rightarrow> error + teacher list" where
  "asTeachers p = (case p of NoResult \<Rightarrow> Inr [] | TeacherList xs \<Rightarrow> Inr xs | _ \<Rightarrow> Inl JSONError)"

definition asRooms :: "payload \<Rightarrow> error + room list" where
  "asRooms p = (case p of NoResult \<Rightarrow> Inr [] | RoomList xs \<Rightarrow> Inr xs | _ \<Rightarrow> Inl JSONError)"

definition asKlassen :: "payload \<Rightarrow> error + klasse list" where
  "asKlassen p = (case p of NoResult \<Rightarrow> Inr [] | KlassenList xs \<Rightarrow> Inr xs | _ \<Rightarrow> Inl JSONError)"

definition asTimetable :: "payload \<Rightarrow> error + rawLesson list" where
  "asTimetable p = (case p of NoResult \<Rightarrow> Inr [] | TimetableList xs \<Rightarrow> Inr xs | _ \<Rightarrow> Inl JSONError)"

subsection \<open>Session: \<open>CreateClient\<close>, \<open>Authenticate\<close>, \<open>Close\<close>\<close>

definition newClient :: "string \<Rightarrow> string \<Rightarrow> Client" where
  "newClient username password =
     \<lparr>Username = username, Password = password, SessionID = [], PersonType = -1,
      PersonID = -1, Closed = False, Authenticated = False\<rparr>"

definition ClientName :: string where
  "ClientName = ''Refundable''"

text \<open>
  \<open>Authenticate\<close> has a pointer receiver: the model returns the error (\<open>None\<close> for
  \<open>nil\<close>), the client as the call leaves it, and the world. The correlation test
  compares the reply's id string with the decimal string of the request id. The type
  assertion on \<open>sessionId\<close> panics when the entry is absent or not a string; it is the
  first statement of the success branch, so nothing has been assigned by then.
\<close>

definition Authenticate :: "Client \<Rightarrow> world \<Rightarrow> error option \<times> Client \<times> world" where
  "Authenticate client w =
     (if Authenticated client then (Some AlreadyAuthenticated, client, w)
      else
        (let qid = rand w (length (sent w));
             req = \<lparr>req_id = qid, req_method = ''authenticate'',
                    req_params = AuthParams (Username client) (Password client) ClientName,
                    req_cookie = None\<rparr>;
             (resp, w') = roundTrip req w
         in case readEnvelope resp of
              Inl e \<Rightarrow> (Some e, client, w')
            | Inr (rid, res) \<Rightarrow>
                (case asAuth res of
                   Inl e \<Rightarrow> (Some e, client, w')
                 | Inr (sid, personType, personID) \<Rightarrow>
                     if rid = Itoa qid then
                       (case sid of
                          None \<Rightarrow> (Some Panic, client, w')
                        | Some s \<Rightarrow>
                            (None,
                             client\<lparr>SessionID := s, PersonType := personType,
                                    PersonID := personID, Authenticated := True,
                                    Closed := False\<rparr>,
                             w'))
                     else (Some IdsNotMatching, client, w'))))"

text \<open>
  \<open>Close\<close> sets the two flags first and sends \<open>logout\<close> afterwards; the reply is not
  read, so only a transport failure is an error.
\<close>

definition Close :: "Client \<Rightarrow> world \<Rightarrow> error option \<times> Client \<times> world" where
  "Close client w =
     (if \<not> Authenticated client then (Some NotAuthenticated, client, w)
      else
        (let client' = client\<lparr>Closed := True, Authenticated := False\<rparr>;
             ((resp, qid), w') = sendRequest client' ''logout'' NoParams w
         in if resp = TransportError then (Some NetworkError, client', w')
            else (None, client', w')))"

subsection \<open>Resolving ids and names\<close>

text \<open>
  The nested loops of \<open>ResolveTeachers\<close>, \<open>ResolveRooms\<close> and \<open>ResolveClasses\<close>:
  for each id, in input order, the whole listing is scanned and the name of every record
  with that id is appended. The inner loop has no \<open>break\<close>. The three functions differ
  in the record type only, so the loops take the two field readers as arguments.
\<close>

fun scanListing :: "('r \<Rightarrow> int) \<Rightarrow> ('r \<Rightarrow> string) \<Rightarrow> int \<Rightarrow> 'r list \<Rightarrow> string list \<Rightarrow> string list" where
  "scanListing rid rname i [] names = names"
| "scanListing rid rname i (res # rest) names =
     scanListing rid rname i rest (if i = rid res then names @ [rname res] else names)"

fun resolveLoop :: "('r \<Rightarrow> int) \<Rightarrow> ('r \<Rightarrow> string) \<Rightarrow> int list \<Rightarrow> 'r list \<Rightarrow> string list \<Rightarrow> string list" where
  "resolveLoop rid rname [] listing names = names"
| "resolveLoop rid rname (i # ids) listing names =
     resolveLoop rid rname ids listing (scanListing rid rname i listing names)"

text \<open>
  Here the correlation test goes through \<open>Atoi\<close> with its error dropped: the reply's id
  string is turned into a number and compared with the request id.
\<close>

definition ResolveTeachers :: "Client \<Rightarrow> int list \<Rightarrow> world \<Rightarrow> (error + string list) \<times> world" where
  "ResolveTeachers client ids w =
     (if \<not> Authenticated client then (Inl NotAuthenticated, w)
      else
        (let ((resp, qid), w') = sendRequest client ''getTeachers'' NoParams w
         in case readEnvelope resp of
              Inl e \<Rightarrow> (Inl e, w')
            | Inr (rid, res) \<Rightarrow>
                (case asTeachers res of
                   Inl e \<Rightarrow> (Inl e, w')
                 | Inr listing \<Rightarrow>
                     if qid = fst (Atoi rid)
                     then (Inr (resolveLoop t_ID t_Name ids listing []), w')
                     else (Inl IdsNotMatching, w'))))"

definition ResolveRooms :: "Client \<Rightarrow> int list \<Rightarrow> world \<Rightarrow> (error + string list) \<times> world" where
  "ResolveRooms client ids w =
     (if \<not> Authenticated client then (Inl NotAuthenticated, w)
      else
        (let ((resp, qid), w') = sendRequest client ''getRooms'' NoParams w
         in case readEnvelope resp of
              Inl e \<Rightarrow> (Inl e, w')
            | Inr (rid, res) \<Rightarrow>
                (case asRooms res of
                   Inl e \<Rightarrow> (Inl e, w')
                 | Inr listing \<Rightarrow>
                     if qid = fst (Atoi rid)
                     then (Inr (resolveLoop r_ID r_Name ids listing []), w')
                     else (Inl IdsNotMatching, w'))))"

definition ResolveClasses :: "Client \<Rightarrow> int list \<Rightarrow> world \<Rightarrow> (error + string list) \<times> world" where
  "ResolveClasses client ids w =
     (if \<not> Authenticated client then (Inl NotAuthenticated, w)
      else
        (let ((resp, qid), w') = sendRequest client ''getKlassen'' NoParams w
         in case readEnvelope resp of
              Inl e \<Rightarrow> (Inl e, w')
            | Inr (rid, res) \<Rightarrow>
                (case asKlassen res of
                   Inl e \<Rightarrow> (Inl e, w')
                 | Inr listing \<Rightarrow>
                     if fst (Atoi rid) = qid
                     then (Inr (resolveLoop k_ID k_Name ids listing []), w')
                     else (Inl IdsNotMatching, w'))))"

text \<open>
  \<open>ResolveTeacherID\<close>: \<open>strings.Split\<close> cuts the input at every space; element 0
  is the forename, element 1 is uppercased by \<open>strings.ToUpper\<close> (the argument
  \<open>toUpper\<close>). Reading element 1 of a one-element slice
  panics, and it is read before the loop. Each record's long name is cut the same way and
  its element 0 is compared as it is.
\<close>

fun findTeacher :: "string \<Rightarrow> string \<Rightarrow> teacher list \<Rightarrow> error + int" where
  "findTeacher forename longname [] = Inl TeacherNotFound"
| "findTeacher forename longname (res # rest) =
     (let surname = hd (SplitSpace (t_LongName res))
      in if forename = t_ForeName res \<and> longname = surname then Inr (t_ID res)
         else findTeacher forename longname rest)"

definition ResolveTeacherID :: "(string \<Rightarrow> string) \<Rightarrow> Client \<Rightarrow> string \<Rightarrow> world \<Rightarrow> (error + int) \<times> world" where
  "ResolveTeacherID toUpper client teacher_name w =
     (if \<not> Authenticated client then (Inl NotAuthenticated, w)
      else
        (let ((resp, qid), w') = sendRequest client ''getTeachers'' NoParams w
         in case readEnvelope resp of
              Inl e \<Rightarrow> (Inl e, w')
            | Inr (rid, res) \<Rightarrow>
                (case asTeachers res of
                   Inl e \<Rightarrow> (Inl e, w')
                 | Inr listing \<Rightarrow>
                     if fst (Atoi rid) = qid then
                       (case SplitSpace teacher_name of
                          forename # tok # others \<Rightarrow>
                            (findTeacher forename (toUpper tok) listing, w')
                        | _ \<Rightarrow> (Inl Panic, w'))
                     else (Inl IdsNotMatching, w'))))"

fun findClass :: "string \<Rightarrow> klasse list \<Rightarrow> error + int" where
  "findClass class_name [] = Inl ClassNotFound"
| "findClass class_name (res # rest) =
     (if class_name = k_Name res then Inr (k_ID res) else findClass class_name rest)"

definition ResolveClassID :: "Client \<Rightarrow> string \<Rightarrow> world \<Rightarrow> (error + int) \<times> world" where
  "ResolveClassID client class_name w =
     (if \<not> Authenticated client then (Inl NotAuthenticated, w)
      else
        (let ((resp, qid), w') = sendRequest client ''getKlassen'' NoParams w
         in case readEnvelope resp of
              Inl e \<Rightarrow> (Inl e, w')
            | Inr (rid, res) \<Rightarrow>
                (case asKlassen res of
                   Inl e \<Rightarrow> (Inl e, w')
                 | Inr listing \<Rightarrow>
                     if fst (Atoi rid) = qid then (findClass class_name listing, w')
                     else (Inl IdsNotMatching, w'))))"

subsection \<open>Timetable retrieval\<close>

text \<open>
  A lesson; \<open>Start\<close> and \<open>End\<close> hold the arguments given to \<open>time.Date\<close> (seconds
  and nanoseconds are 0, the zone is UTC).
\<close>

record Lesson =
  Start :: Time
  End :: Time
  ClassIDs :: "int list"
  Classes :: "string list"
  TeacherIDs :: "int list"
  Teachers :: "string list"
  RoomIDs :: "int list"
  Rooms :: "string list"

definition pad2 :: "string \<Rightarrow> string" where
  "pad2 s = (if length s = 1 then CHR ''0'' # s else s)"

definition dateParam :: "Time \<Rightarrow> string" where
  "dateParam t = Itoa (Year t) @ pad2 (Itoa (Month t)) @ pad2 (Itoa (Day t))"

text \<open>
  The loop over the raw records, the same text in all three retrieval functions. The date
  string is sliced at 4, 6 and 8, which panics on a shorter string; the times are decoded
  as above. Then one resolver call per id list; an error of any of them is returned at
  once, with no lessons.
\<close>

fun lessonsLoop :: "Client \<Rightarrow> rawLesson list \<Rightarrow> Lesson list \<Rightarrow> world \<Rightarrow> (error + Lesson list) \<times> world" where
  "lessonsLoop client [] lessons w = (Inr lessons, w)"
| "lessonsLoop client (l # rest) lessons w =
     (let date = Itoa (l_Date l) in
      if length date < 8 then (Inl Panic, w)
      else
        (let year = fst (Atoi (take 4 date));
             month = fst (Atoi (take 2 (drop 4 date)));
             day = fst (Atoi (take 2 (drop 6 date)))
         in case decodeTime (l_StartTime l) of
              Inl e \<Rightarrow> (Inl e, w)
            | Inr (startHour, startMinute) \<Rightarrow>
          (case decodeTime (l_EndTime l) of
              Inl e \<Rightarrow> (Inl e, w)
            | Inr (endHour, endMinute) \<Rightarrow>
          (case ResolveClasses client (l_Kl l) w of
              (Inl e, w1) \<Rightarrow> (Inl e, w1)
            | (Inr classArr, w1) \<Rightarrow>
          (case ResolveTeachers client (l_Te l) w1 of
              (Inl e, w2) \<Rightarrow> (Inl e, w2)
            | (Inr teachArr, w2) \<Rightarrow>
          (case ResolveRooms client (l_Ro l) w2 of
              (Inl e, w3) \<Rightarrow> (Inl e, w3)
            | (Inr roomArr, w3) \<Rightarrow>
                lessonsLoop client rest
                  (lessons @
                   [\<lparr>Start = \<lparr>Year = year, Month = month, Day = day,
                              Hour = startHour, Minute = startMinute\<rparr>,
                     End = \<lparr>Year = year, Month = month, Day = day,
                            Hour = endHour, Minute = endMinute\<rparr>,
                     ClassIDs = l_Kl l, Classes = classArr,
                     TeacherIDs = l_Te l, Teachers = teachArr,
                     RoomIDs = l_Ro l, Rooms = roomArr\<rparr>])
                  w3))))))"

text \<open>What each retrieval function does with the reply to \<open>getTimetable\<close>.\<close>

definition readTimetable :: "Client \<Rightarrow> reply \<times> int \<Rightarrow> world \<Rightarrow> (error + Lesson list) \<times> world" where
  "readTimetable client r w =
     (case r of (resp, qid) \<Rightarrow>
        (case readEnvelope resp of
           Inl e \<Rightarrow> (Inl e, w)
         | Inr (rid, res) \<Rightarrow>
             (case asTimetable res of
                Inl e \<Rightarrow> (Inl e, w)
              | Inr raws \<Rightarrow>
                  if fst (Atoi rid) = qid then lessonsLoop client raws [] w
                  else (Inl IdsNotMatching, w))))"

definition GetTimetableOfTeacher :: "Client \<Rightarrow> Time \<Rightarrow> Time \<Rightarrow> world \<Rightarrow> (error + Lesson list) \<times> world" where
  "GetTimetableOfTeacher client start end_t w =
     (if \<not> Authenticated client then (Inl NotAuthenticated, w)
      else
        (let ps = TimetableParams (PersonID client) (PersonType client)
                    (dateParam start) (dateParam end_t);
             (r, w') = sendRequest client ''getTimetable'' ps w
         in readTimetable client r w'))"

text \<open>
  \<open>GetTimetableOfClass\<close> assigns the error of \<open>ResolveClassID\<close> to the blank
  identifier and goes on with the returned id, which is \<open>-1\<close> on each of that function's
  error returns.
\<close>

definition GetTimetableOfClass :: "Client \<Rightarrow> Time \<Rightarrow> Time \<Rightarrow> string \<Rightarrow> world \<Rightarrow> (error + Lesson list) \<times> world" where
  "GetTimetableOfClass client start end_t class_name w =
     (if \<not> Authenticated client then (Inl NotAuthenticated, w)
      else
        (let (resolved, w1) = ResolveClassID client class_name w;
             classID = (case resolved of Inl e \<Rightarrow> -1 | Inr i \<Rightarrow> i);
             ps = TimetableParams classID 1 (dateParam start) (dateParam end_t);
             (r, w') = sendRequest client ''getTimetable'' ps w1
         in readTimetable client r w'))"

definition GetTimetableOfSpecificTeacher :: "(string \<Rightarrow> string) \<Rightarrow> Client \<Rightarrow> Time \<Rightarrow> Time \<Rightarrow> string \<Rightarrow> world \<Rightarrow> (error + Lesson list) \<times> world" where
  "GetTimetableOfSpecificTeacher toUpper client start end_t teacher_name w =
     (if \<not> Authenticated client then (Inl NotAuthenticated, w)
      else
        (case ResolveTeacherID toUpper client teacher_name w of
           (Inl e, w1) \<Rightarrow> (Inl e, w1)
         | (Inr tid, w1) \<Rightarrow>
             (let ps = TimetableParams tid 2 (dateParam start) (dateParam end_t);
                  (r, w') = sendRequest client ''getTimetable'' ps w1
              in readTimetable client r w')))"

subsection \<open>The registry of active clients\<close>

text \<open>
  \<open>activeClients\<close> is a \<open>map[string]Client\<close>: it holds structs, not pointers, and
  starts as the nil map. \<open>CreateClient\<close> stores a copy of its local struct in the map
  and returns the address of the local; \<open>GetClient\<close> copies the map entry (the zero
  struct for a missing key) into a new local and returns that address. The heap maps the
  addresses handed out to the structs behind them.
\<close>

record store =
  activeClients :: "(string \<rightharpoonup> Client) option"
  heap :: "nat \<rightharpoonup> Client"
  nextAddr :: nat

definition zeroClient :: Client where
  "zeroClient =
     \<lparr>Username = [], Password = [], SessionID = [], PersonType = 0, PersonID = 0,
      Closed = False, Authenticated = False\<rparr>"

definition emptyStore :: store where
  "emptyStore = \<lparr>activeClients = None, heap = Map.empty, nextAddr = 0\<rparr>"

definition CreateClient :: "string \<Rightarrow> string \<Rightarrow> store \<Rightarrow> nat \<times> store" where
  "CreateClient username password st =
     (let client = newClient username password;
          m = (case activeClients st of None \<Rightarrow> Map.empty | Some m \<Rightarrow> m);
          a = nextAddr st
      in (a, st\<lparr>activeClients := Some (m(username \<mapsto> client)),
                heap := (heap st)(a \<mapsto> client),
                nextAddr := Suc a\<rparr>))"

definition GetClient :: "string \<Rightarrow> store \<Rightarrow> nat \<times> store" where
  "GetClient username st =
     (let client =
            (case activeClients st of
               None \<Rightarrow> zeroClient
             | Some m \<Rightarrow> (case m username of None \<Rightarrow> zeroClient | Some c \<Rightarrow> c));
          a = nextAddr st
      in (a, st\<lparr>heap := (heap st)(a \<mapsto> client), nextAddr := Suc a\<rparr>))"

text \<open>The two pointer-receiver methods called through an address.\<close>

definition AuthenticateAt :: "nat \<Rightarrow> store \<Rightarrow> world \<Rightarrow> error option \<times> store \<times> world" where
  "AuthenticateAt a st w =
     (case heap st a of
        None \<Rightarrow> (Some Panic, st, w)
      | Some c \<Rightarrow>
          (case Authenticate c w of
             (e, c', w') \<Rightarrow> (e, st\<lparr>heap := (heap st)(a \<mapsto> c')\<rparr>, w')))"

definition CloseAt :: "nat \<Rightarrow> store \<Rightarrow> world \<Rightarrow> error option \<times> store \<times> world" where
  "CloseAt a st w =
     (case heap st a of
        None \<Rightarrow> (Some Panic, st, w)
      | Some c \<Rightarrow>
          (case Close c w of
             (e, c', w') \<Rightarrow> (e, st\<lparr>heap := (heap st)(a \<mapsto> c')\<rparr>, w')))"

text \<open>Any sequence of \<open>Authenticate\<close> and \<open>Close\<close> calls on one client.\<close>

datatype sessionOp = DoAuthenticate | DoClose

fun runOps :: "sessionOp list \<Rightarrow> Client \<Rightarrow> world \<Rightarrow> Client \<times> world" where
  "runOps [] c w = (c, w)"
| "runOps (DoAuthenticate # ops) c w =
     (case Authenticate c w of (e, c', w') \<Rightarrow> runOps ops c' w')"
| "runOps (DoClose # ops) c w =
     (case Close c w of (e, c', w') \<Rightarrow> runOps ops c' w')"

subsection \<open>Notions used to state the properties\<close>

text \<open>
  For each id in input order, the names of all listing records with that id, in listing
  order.
\<close>

definition allMatches :: "('r \<Rightarrow> int) \<Rightarrow> ('r \<Rightarrow> string) \<Rightarrow> 'r list \<Rightarrow> int list \<Rightarrow> string list" where
  "allMatches rid rname listing ids =
     concat (map (\<lambda>i. map rname (filter (\<lambda>res. i = rid res) listing)) ids)"

text \<open>Re-encoding a decoded time as \<open>hour * 100 + minute\<close>; a decoding fault stays one.\<close>

definition reencode :: "error + (int \<times> int) \<Rightarrow> error + int" where
  "reencode r = (case r of Inl e \<Rightarrow> Inl e | Inr (h, m) \<Rightarrow> Inr (h * 100 + m))"

text \<open>The service never hands out the empty string as a session id.\<close>

definition issuesTokens :: "world \<Rightarrow> bool" where
  "issuesTokens w =
     (\<forall>k req rid pt pid. server w k req \<noteq> Envelope rid (AuthResult (Some []) pt pid))"

subsection \<open>A service that answers as expected\<close>

text \<open>
  Concrete surroundings for evaluating the functions: \<open>rand.Intn\<close> yields 41, 42, ...,
  and the service echoes the request id and answers each method with a fixed result.
\<close>

definition demoTeachers :: "teacher list" where
  "demoTeachers =
     [\<lparr>t_ID = 7, t_Name = ''SMI'', t_ForeName = ''John'', t_LongName = ''SMITH Jonathan''\<rparr>,
      \<lparr>t_ID = 8, t_Name = ''MIL'', t_ForeName = ''John'', t_LongName = ''Miller Jack''\<rparr>,
      \<lparr>t_ID = 9, t_Name = ''SMX'', t_ForeName = ''Joan'', t_LongName = ''SMITH Joan''\<rparr>]"

definition demoRooms :: "room list" where
  "demoRooms = [\<lparr>r_ID = 3, r_Name = ''E12'', r_LongName = ''Room E12''\<rparr>]"

definition demoKlassen :: "klasse list" where
  "demoKlassen = [\<lparr>k_ID = 1, k_Name = ''5AHIF'', k_LongName = ''5AHIF''\<rparr>]"

definition demoServer :: "nat \<Rightarrow> request \<Rightarrow> reply" where
  "demoServer k req =
     (if req_method req = ''authenticate''
      then Envelope (Itoa (req_id req)) (AuthResult (Some ''ABC123'') (Some 2) (Some 5))
      else if req_method req = ''getTeachers''
      then Envelope (Itoa (req_id req)) (TeacherList demoTeachers)
      else if req_method req = ''getRooms''
      then Envelope (Itoa (req_id req)) (RoomList demoRooms)
      else if req_method req = ''getKlassen''
      then Envelope (Itoa (req_id req)) (KlassenList demoKlassen)
      else if req_method req = ''getTimetable''
      then Envelope (Itoa (req_id req)) (TimetableList [])
      else Envelope (Itoa (req_id req)) NoResult)"

definition demoWorld :: world where
  "demoWorld = \<lparr>rand = (\<lambda>k. 41 + int k), server = demoServer, sent = []\<rparr>"

definition offlineWorld :: world where
  "offlineWorld = \<lparr>rand = (\<lambda>k. 41 + int k), server = (\<lambda>k req. TransportError), sent = []\<rparr>"

text \<open>A service whose teacher listing holds two records with the same id.\<close>

definition twinTeachers :: "teacher list" where
  "twinTeachers =
     [\<lparr>t_ID = 7, t_Name = ''SMI'', t_ForeName = ''John'', t_LongName = ''SMITH Jonathan''\<rparr>,
      \<lparr>t_ID = 7, t_Name = ''SMX'', t_ForeName = ''Joan'', t_LongName = ''SMITH Joan''\<rparr>]"

definition twinWorld :: world where
  "twinWorld =
     \<lparr>rand = (\<lambda>k. 41 + int k),
      server = (\<lambda>k req. Envelope (Itoa (req_id req)) (TeacherList twinTeachers)),
      sent = []\<rparr>"

definition demoDay :: Time where
  "demoDay = \<lparr>Year = 2024, Month = 3, Day = 11, Hour = 0, Minute = 0\<rparr>"

definition demoClient :: Client where
  "demoClient =
     \<lparr>Username = ''jdoe'', Password = ''secret'', SessionID = ''ABC123'', PersonType = 2,
      PersonID = 5, Closed = False, Authenticated = True\<rparr>"

section \<open>Properties\<close>

lemmas resolver_defs = ResolveTeachers_def ResolveRooms_def ResolveClasses_def
  ResolveTeacherID_def ResolveClassID_def

lemmas timetable_defs = GetTimetableOfTeacher_def GetTimetableOfClass_def
  GetTimetableOfSpecificTeacher_def

subsection \<open>The registry\<close>

text \<open>
  Whatever the service answers, a lookup after \<open>CreateClient\<close> and \<open>Authenticate\<close>
  yields a new address holding the struct as \<open>CreateClient\<close> built it.
\<close>

lemma lookup_returns_fresh_copy:
  "(case CreateClient u p st of (a, st1) \<Rightarrow>
      case AuthenticateAt a st1 w of (e, st2, w') \<Rightarrow>
      case GetClient u st2 of (b, st3) \<Rightarrow>
        heap st3 b = Some (newClient u p) \<and> b \<noteq> a)"
  by (simp add: CreateClient_def AuthenticateAt_def GetClient_def Let_def
      split: prod.splits option.splits)

text \<open>
  C1. The registry as the single point of truth: after \<open>CreateClient(u, p)\<close> and a
  successful \<open>Authenticate\<close> on the returned client, \<open>GetClient(u)\<close> should return a
  session with \<open>Authenticated = true\<close> and the session's token. Evaluated for user
  \<open>jdoe\<close> against a service that accepts the login with token \<open>ABC123\<close>: the
  \<open>Authenticate\<close> call succeeds and the struct behind the address from \<open>CreateClient\<close>
  is authenticated with that token, while the struct behind the address from \<open>GetClient\<close>
  has \<open>Authenticated = false\<close> and an empty token.
\<close>

theorem registry_lookup_misses_authentication:
  "(case CreateClient ''jdoe'' ''secret'' emptyStore of (a, st1) \<Rightarrow>
      case AuthenticateAt a st1 demoWorld of (e, st2, w) \<Rightarrow>
      case GetClient ''jdoe'' st2 of (b, st3) \<Rightarrow>
        e = None \<and>
        map_option Authenticated (heap st3 a) = Some True \<and>
        map_option SessionID (heap st3 a) = Some ''ABC123'' \<and>
        map_option Authenticated (heap st3 b) = Some False \<and>
        map_option SessionID (heap st3 b) = Some [])"
  by code_simp

subsection \<open>The session flags\<close>

lemma Authenticate_cases:
  "Authenticate c w = (e, c', w') \<Longrightarrow>
     server w' = server w \<and>
     (c' = c \<or>
      (Authenticated c' \<and> \<not> Closed c' \<and>
       (\<exists>k req rid pt pid. server w k req = Envelope rid (AuthResult (Some (SessionID c')) pt pid))))"
  unfolding Authenticate_def roundTrip_def readEnvelope_def asAuth_def Let_def
  by (fastforce split: if_splits reply.splits payload.splits option.splits)

lemma Close_cases:
  "Close c w = (e, c', w') \<Longrightarrow>
     server w' = server w \<and>
     (c' = c \<or> (Authenticated c \<and> c' = c\<lparr>Closed := True, Authenticated := False\<rparr>))"
  unfolding Close_def sendRequest_def roundTrip_def Let_def
  by (auto split: if_splits)

lemma runOps_invariant:
  assumes "\<not> (Authenticated c \<and> Closed c)"
    and "SessionID c \<noteq> [] \<longrightarrow> Authenticated c \<or> Closed c"
  shows "\<not> (Authenticated (fst (runOps ops c w)) \<and> Closed (fst (runOps ops c w))) \<and>
         (SessionID (fst (runOps ops c w)) \<noteq> [] \<longrightarrow>
            Authenticated (fst (runOps ops c w)) \<or> Closed (fst (runOps ops c w)))"
  using assms
proof (induction ops arbitrary: c w)
  case Nil
  then show ?case by simp
next
  case (Cons op ops)
  show ?case
  proof (cases op)
    case DoAuthenticate
    obtain e c' w' where a: "Authenticate c w = (e, c', w')" by (cases "Authenticate c w") auto
    from Authenticate_cases [OF a] Cons.prems
    have "\<not> (Authenticated c' \<and> Closed c')" "SessionID c' \<noteq> [] \<longrightarrow> Authenticated c' \<or> Closed c'"
      by auto
    from Cons.IH [OF this, of w'] a DoAuthenticate show ?thesis by simp
  next
    case DoClose
    obtain e c' w' where a: "Close c w = (e, c', w')" by (cases "Close c w") auto
    from Close_cases [OF a] Cons.prems
    have "\<not> (Authenticated c' \<and> Closed c')" "SessionID c' \<noteq> [] \<longrightarrow> Authenticated c' \<or> Closed c'"
      by auto
    from Cons.IH [OF this, of w'] a DoClose show ?thesis by simp
  qed
qed

lemma runOps_token:
  assumes "issuesTokens w"
    and "Authenticated c \<longrightarrow> SessionID c \<noteq> []"
  shows "Authenticated (fst (runOps ops c w)) \<longrightarrow> SessionID (fst (runOps ops c w)) \<noteq> []"
  using assms
proof (induction ops arbitrary: c w)
  case Nil
  then show ?case by simp
next
  case (Cons op ops)
  show ?case
  proof (cases op)
    case DoAuthenticate
    obtain e c' w' where a: "Authenticate c w = (e, c', w')" by (cases "Authenticate c w") auto
    from Authenticate_cases [OF a] Cons.prems
    have "issuesTokens w'" "Authenticated c' \<longrightarrow> SessionID c' \<noteq> []"
      by (auto simp: issuesTokens_def)
    from Cons.IH [OF this] a DoAuthenticate show ?thesis by simp
  next
    case DoClose
    obtain e c' w' where a: "Close c w = (e, c', w')" by (cases "Close c w") auto
    from Close_cases [OF a] Cons.prems
    have "issuesTokens w'" "Authenticated c' \<longrightarrow> SessionID c' \<noteq> []"
      by (auto simp: issuesTokens_def)
    from Cons.IH [OF this] a DoClose show ?thesis by simp
  qed
qed

lemma demo_issuesTokens: "issuesTokens demoWorld"
  by (simp add: issuesTokens_def demoWorld_def demoServer_def)

text \<open>
  C2, as it holds. For every client built by \<open>CreateClient\<close> and every sequence of
  \<open>Authenticate\<close> and \<open>Close\<close> calls, against any service: \<open>Authenticated\<close> and
  \<open>Closed\<close> are never both true; the token is non-empty only if the client is
  authenticated or closed (\<open>Close\<close> keeps the token); and, when the service never hands
  out an empty session id, an authenticated client has a non-empty token.
\<close>

theorem session_flags_invariant:
  "\<not> (Authenticated (fst (runOps ops (newClient u p) w)) \<and>
      Closed (fst (runOps ops (newClient u p) w))) \<and>
   (SessionID (fst (runOps ops (newClient u p) w)) \<noteq> [] \<longrightarrow>
      Authenticated (fst (runOps ops (newClient u p) w)) \<or>
      Closed (fst (runOps ops (newClient u p) w))) \<and>
   (issuesTokens w \<longrightarrow> Authenticated (fst (runOps ops (newClient u p) w)) \<longrightarrow>
      SessionID (fst (runOps ops (newClient u p) w)) \<noteq> [])"
  using runOps_invariant [of "newClient u p" ops w] runOps_token [of w "newClient u p" ops]
  by (simp add: newClient_def)

theorem session_flags_invariant_witness:
  "issuesTokens demoWorld \<and>
   Authenticated (fst (runOps [DoAuthenticate] (newClient ''jdoe'' ''secret'') demoWorld)) \<and>
   \<not> Closed (fst (runOps [DoAuthenticate] (newClient ''jdoe'' ''secret'') demoWorld)) \<and>
   SessionID (fst (runOps [DoAuthenticate] (newClient ''jdoe'' ''secret'') demoWorld)) \<noteq> []"
proof -
  have a: "Authenticated (fst (runOps [DoAuthenticate] (newClient ''jdoe'' ''secret'') demoWorld))"
    by code_simp
  show ?thesis
    using a demo_issuesTokens
      session_flags_invariant [of "[DoAuthenticate]" "''jdoe''" "''secret''" demoWorld]
    by blast
qed

text \<open>
  C2 as stated fails: after a successful \<open>Authenticate\<close> and a \<open>Close\<close> the token is
  still \<open>ABC123\<close> while \<open>Authenticated\<close> is false.
\<close>

theorem token_iff_authenticated_counterexample:
  "\<not> (SessionID (fst (runOps [DoAuthenticate, DoClose] (newClient ''jdoe'' ''secret'') demoWorld)) \<noteq> []
        \<longleftrightarrow>
      Authenticated (fst (runOps [DoAuthenticate, DoClose] (newClient ''jdoe'' ''secret'') demoWorld)))"
  by code_simp

subsection \<open>Resolving id lists\<close>

lemma scanListing_filter:
  "scanListing rid rname i listing names = names @ map rname (filter (\<lambda>res. i = rid res) listing)"
  by (induction listing arbitrary: names) simp_all

lemma resolveLoop_allMatches:
  "resolveLoop rid rname ids listing names = names @ allMatches rid rname listing ids"
  by (induction ids arbitrary: names) (simp_all add: allMatches_def scanListing_filter)

lemma filter_distinct_le1:
  "distinct (map rid listing) \<Longrightarrow> length (filter (\<lambda>res. i = rid res) listing) \<le> Suc 0"
proof (induction listing)
  case Nil
  then show ?case by simp
next
  case (Cons a listing)
  show ?case
  proof (cases "i = rid a")
    case True
    with Cons.prems have "filter (\<lambda>res. i = rid res) listing = []"
      by (auto simp: filter_empty_conv)
    with True show ?thesis by simp
  next
    case False
    with Cons show ?thesis by simp
  qed
qed

lemma allMatches_bound:
  "distinct (map rid listing) \<Longrightarrow> length (allMatches rid rname listing ids) \<le> length ids"
proof (induction ids)
  case Nil
  then show ?case by (simp add: allMatches_def)
next
  case (Cons i ids)
  have "length (allMatches rid rname listing (i # ids)) =
        length (filter (\<lambda>res. i = rid res) listing) + length (allMatches rid rname listing ids)"
    by (simp add: allMatches_def)
  with Cons filter_distinct_le1 [of rid listing i] show ?case by simp
qed

lemma allMatches_unmatched:
  "i \<notin> rid ` set listing \<Longrightarrow> allMatches rid rname listing (i # ids) = allMatches rid rname listing ids"
  by (auto simp: allMatches_def filter_empty_conv)

lemma ResolveTeachers_correlated:
  assumes "Authenticated client"
    and "fst (sendRequest client ''getTeachers'' NoParams w) = (Envelope rid (TeacherList listing), qid)"
    and "fst (Atoi rid) = qid"
  shows "fst (ResolveTeachers client ids w) = Inr (allMatches t_ID t_Name listing ids)"
  using assms
  by (cases "sendRequest client ''getTeachers'' NoParams w")
     (simp add: ResolveTeachers_def readEnvelope_def asTeachers_def resolveLoop_allMatches)

lemma ResolveRooms_correlated:
  assumes "Authenticated client"
    and "fst (sendRequest client ''getRooms'' NoParams w) = (Envelope rid (RoomList listing), qid)"
    and "fst (Atoi rid) = qid"
  shows "fst (ResolveRooms client ids w) = Inr (allMatches r_ID r_Name listing ids)"
  using assms
  by (cases "sendRequest client ''getRooms'' NoParams w")
     (simp add: ResolveRooms_def readEnvelope_def asRooms_def resolveLoop_allMatches)

lemma ResolveClasses_correlated:
  assumes "Authenticated client"
    and "fst (sendRequest client ''getKlassen'' NoParams w) = (Envelope rid (KlassenList listing), qid)"
    and "fst (Atoi rid) = qid"
  shows "fst (ResolveClasses client ids w) = Inr (allMatches k_ID k_Name listing ids)"
  using assms
  by (cases "sendRequest client ''getKlassen'' NoParams w")
     (simp add: ResolveClasses_def readEnvelope_def asKlassen_def resolveLoop_allMatches)

text \<open>
  C3, as it holds. On an authenticated client with a correlated listing reply,
  \<open>ResolveTeachers\<close>, \<open>ResolveRooms\<close> and \<open>ResolveClasses\<close> never fail and return,
  for each input id in input order, the names of all listing records with that id in
  listing order; an id without a record contributes nothing. When the ids in the listing
  are distinct, this is at most one name per input id, so no more names than input ids.
\<close>

theorem resolve_names_every_match:
  "(Authenticated client \<and>
    fst (sendRequest client ''getTeachers'' NoParams w) = (Envelope rid (TeacherList ts), qid) \<and>
    fst (Atoi rid) = qid \<longrightarrow>
      fst (ResolveTeachers client ids w) = Inr (allMatches t_ID t_Name ts ids) \<and>
      (distinct (map t_ID ts) \<longrightarrow> length (allMatches t_ID t_Name ts ids) \<le> length ids)) \<and>
   (Authenticated client \<and>
    fst (sendRequest client ''getRooms'' NoParams w) = (Envelope rid (RoomList rs), qid) \<and>
    fst (Atoi rid) = qid \<longrightarrow>
      fst (ResolveRooms client ids w) = Inr (allMatches r_ID r_Name rs ids) \<and>
      (distinct (map r_ID rs) \<longrightarrow> length (allMatches r_ID r_Name rs ids) \<le> length ids)) \<and>
   (Authenticated client \<and>
    fst (sendRequest client ''getKlassen'' NoParams w) = (Envelope rid (KlassenList ks), qid) \<and>
    fst (Atoi rid) = qid \<longrightarrow>
      fst (ResolveClasses client ids w) = Inr (allMatches k_ID k_Name ks ids) \<and>
      (distinct (map k_ID ks) \<longrightarrow> length (allMatches k_ID k_Name ks ids) \<le> length ids))"
  using ResolveTeachers_correlated [of client w rid ts qid ids]
    ResolveRooms_correlated [of client w rid rs qid ids]
    ResolveClasses_correlated [of client w rid ks qid ids]
    allMatches_bound [of t_ID ts t_Name ids]
    allMatches_bound [of r_ID rs r_Name ids]
    allMatches_bound [of k_ID ks k_Name ids]
  by blast

theorem resolve_names_every_match_witness:
  "Authenticated demoClient \<and>
   fst (sendRequest demoClient ''getTeachers'' NoParams demoWorld) =
     (Envelope ''41'' (TeacherList demoTeachers), 41) \<and>
   fst (sendRequest demoClient ''getRooms'' NoParams demoWorld) =
     (Envelope ''41'' (RoomList demoRooms), 41) \<and>
   fst (sendRequest demoClient ''getKlassen'' NoParams demoWorld) =
     (Envelope ''41'' (KlassenList demoKlassen), 41) \<and>
   fst (Atoi ''41'') = 41 \<and>
   distinct (map t_ID demoTeachers) \<and> distinct (map r_ID demoRooms) \<and>
   distinct (map k_ID demoKlassen) \<and>
   fst (ResolveTeachers demoClient [9, 100, 7] demoWorld) = Inr [''SMX'', ''SMI''] \<and>
   fst (ResolveRooms demoClient [9, 100, 3] demoWorld) = Inr [''E12''] \<and>
   fst (ResolveClasses demoClient [1, 1] demoWorld) = Inr [''5AHIF'', ''5AHIF''] \<and>
   length (allMatches t_ID t_Name demoTeachers [9, 100, 7]) \<le> length [9, 100, 7 :: int]"
proof -
  have h: "Authenticated demoClient"
    "fst (sendRequest demoClient ''getTeachers'' NoParams demoWorld) =
       (Envelope ''41'' (TeacherList demoTeachers), 41)"
    "fst (sendRequest demoClient ''getRooms'' NoParams demoWorld) =
       (Envelope ''41'' (RoomList demoRooms), 41)"
    "fst (sendRequest demoClient ''getKlassen'' NoParams demoWorld) =
       (Envelope ''41'' (KlassenList demoKlassen), 41)"
    "fst (Atoi ''41'') = 41"
    "distinct (map t_ID demoTeachers)" "distinct (map r_ID demoRooms)"
    "distinct (map k_ID demoKlassen)"
    by code_simp+
  have v: "allMatches t_ID t_Name demoTeachers [9, 100, 7] = [''SMX'', ''SMI'']"
    "allMatches r_ID r_Name demoRooms [9, 100, 3] = [''E12'']"
    "allMatches k_ID k_Name demoKlassen [1, 1] = [''5AHIF'', ''5AHIF'']"
    by code_simp+
  show ?thesis
    using h v
      resolve_names_every_match [of demoClient demoWorld "''41''" demoTeachers 41
        "[9, 100, 7]" demoRooms demoKlassen]
      resolve_names_every_match [of demoClient demoWorld "''41''" demoTeachers 41
        "[9, 100, 3]" demoRooms demoKlassen]
      resolve_names_every_match [of demoClient demoWorld "''41''" demoTeachers 41
        "[1, 1]" demoRooms demoKlassen]
    by simp
qed

text \<open>
  C3 as stated fails: with two records of id 7 in the listing, the single input id 7
  yields two names.
\<close>

theorem resolve_more_names_than_ids_counterexample:
  "fst (ResolveTeachers demoClient [7] twinWorld) = Inr [''SMI'', ''SMX''] \<and>
   \<not> length [''SMI'', ''SMX''] \<le> length [7 :: int]"
  by code_simp

subsection \<open>Timetable retrieval and resolver failures\<close>

text \<open>
  The shared record loop returns either an error or one lesson per raw record, never a
  shorter list.
\<close>

lemma lessonsLoop_all_or_nothing:
  "fst (lessonsLoop client raws acc w) = Inr ls \<Longrightarrow> length ls = length acc + length raws"
proof (induction raws arbitrary: acc w)
  case Nil
  then show ?case by auto
next
  case (Cons l rest)
  from Cons.prems show ?case
    by (auto simp: Let_def dest!: Cons.IH split: if_splits sum.splits prod.splits)
qed

text \<open>The by-teacher-name variant returns the resolver's error.\<close>

lemma specific_teacher_aborts:
  "fst (ResolveTeacherID toUpper client tn w) = Inl e \<Longrightarrow>
   fst (GetTimetableOfSpecificTeacher toUpper client s e' tn w) = Inl e"
  by (cases "ResolveTeacherID toUpper client tn w")
     (auto simp: GetTimetableOfSpecificTeacher_def ResolveTeacherID_def)

text \<open>
  C4. A resolver failure should abort every retrieval variant. Evaluated for the
  by-class-name variant on an authenticated client with the class name \<open>9Z\<close>, which
  the class listing does not hold: \<open>ResolveClassID\<close> fails with class-not-found, yet
  \<open>GetTimetableOfClass\<close> returns a lesson list and no error, after asking the service
  for the timetable of class id \<open>-1\<close>.
\<close>

theorem class_timetable_ignores_resolver_error:
  "fst (ResolveClassID demoClient ''9Z'' demoWorld) = Inl ClassNotFound \<and>
   fst (GetTimetableOfClass demoClient demoDay demoDay ''9Z'' demoWorld) = Inr [] \<and>
   map req_params (sent (snd (GetTimetableOfClass demoClient demoDay demoDay ''9Z'' demoWorld))) =
     [NoParams, TimetableParams (- 1) 1 ''20240311'' ''20240311'']"
  by code_simp

subsection \<open>Resolving a teacher name\<close>

lemma findTeacher_find:
  "findTeacher forename longname listing =
     (case find (\<lambda>res. forename = t_ForeName res \<and> longname = hd (SplitSpace (t_LongName res))) listing of
        None \<Rightarrow> Inl TeacherNotFound
      | Some res \<Rightarrow> Inr (t_ID res))"
  by (induction listing) (simp_all add: Let_def)

lemma ResolveTeacherID_correlated:
  assumes "Authenticated client"
    and "fst (sendRequest client ''getTeachers'' NoParams w) = (Envelope rid (TeacherList listing), qid)"
    and "fst (Atoi rid) = qid"
    and "SplitSpace teacher_name = forename # tok # others"
  shows "fst (ResolveTeacherID toUpper client teacher_name w) =
     (case find (\<lambda>res. forename = t_ForeName res \<and> toUpper tok = hd (SplitSpace (t_LongName res))) listing of
        None \<Rightarrow> Inl TeacherNotFound
      | Some res \<Rightarrow> Inr (t_ID res))"
  using assms
  by (cases "sendRequest client ''getTeachers'' NoParams w")
     (simp add: ResolveTeacherID_def readEnvelope_def asTeachers_def findTeacher_find)

text \<open>
  C5, as it holds. On an authenticated client with a correlated listing reply and an
  input with at least one space, \<open>ResolveTeacherID\<close> takes the text before the first
  space as the forename and the text between the first and the second space, uppercased
  by \<open>strings.ToUpper\<close>, as the surname token, and returns the id of the first listing
  record whose given name is the forename and whose long name up to its first space,
  compared as it is, equals that token; without such a record it fails with
  teacher-not-found. This holds whatever \<open>strings.ToUpper\<close> does to the token, so for
  names inside and outside ASCII alike.
\<close>

theorem resolve_teacher_id_first_match:
  assumes "Authenticated client"
    and "fst (sendRequest client ''getTeachers'' NoParams w) = (Envelope rid (TeacherList listing), qid)"
    and "fst (Atoi rid) = qid"
    and "SplitSpace teacher_name = forename # tok # others"
  shows "fst (ResolveTeacherID toUpper client teacher_name w) =
     (case find (\<lambda>res. forename = t_ForeName res \<and>
                        toUpper tok = hd (SplitSpace (t_LongName res))) listing of
        None \<Rightarrow> Inl TeacherNotFound
      | Some res \<Rightarrow> Inr (t_ID res))"
  using assms by (rule ResolveTeacherID_correlated)

text \<open>
  The two scenarios of the specification; the names are ASCII, so \<open>strings.ToUpper\<close>
  is \<open>ToUpperASCII\<close> on them.
\<close>

theorem resolve_teacher_id_first_match_witness:
  "Authenticated demoClient \<and>
   fst (sendRequest demoClient ''getTeachers'' NoParams demoWorld) =
     (Envelope ''41'' (TeacherList demoTeachers), 41) \<and>
   fst (Atoi ''41'') = 41 \<and>
   SplitSpace ''John SMITH'' = [''John'', ''SMITH''] \<and>
   SplitSpace ''Jim SMITH'' = [''Jim'', ''SMITH''] \<and>
   isASCII ''SMITH'' \<and>
   fst (ResolveTeacherID ToUpperASCII demoClient ''John SMITH'' demoWorld) = Inr 7 \<and>
   fst (ResolveTeacherID ToUpperASCII demoClient ''Jim SMITH'' demoWorld) = Inl TeacherNotFound"
proof -
  have h: "Authenticated demoClient"
    "fst (sendRequest demoClient ''getTeachers'' NoParams demoWorld) =
       (Envelope ''41'' (TeacherList demoTeachers), 41)"
    "fst (Atoi ''41'') = 41"
    by code_simp+
  have sp: "SplitSpace ''John SMITH'' = [''John'', ''SMITH'']"
    "SplitSpace ''Jim SMITH'' = [''Jim'', ''SMITH'']"
    by code_simp+
  have asc: "isASCII ''SMITH''" by code_simp
  have v: "(case find (\<lambda>res. ''John'' = t_ForeName res \<and>
                          ToUpperASCII ''SMITH'' = hd (SplitSpace (t_LongName res))) demoTeachers of
              None \<Rightarrow> Inl TeacherNotFound | Some res \<Rightarrow> Inr (t_ID res)) = Inr 7"
    "(case find (\<lambda>res. ''Jim'' = t_ForeName res \<and>
                          ToUpperASCII ''SMITH'' = hd (SplitSpace (t_LongName res))) demoTeachers of
              None \<Rightarrow> Inl TeacherNotFound | Some res \<Rightarrow> Inr (t_ID res)) = Inl TeacherNotFound"
    by code_simp+
  show ?thesis
    using h sp asc v
      resolve_teacher_id_first_match [OF h sp(1), of ToUpperASCII]
      resolve_teacher_id_first_match [OF h sp(2), of ToUpperASCII]
    by simp
qed

text \<open>
  C5 as stated fails: the listing's second record has given name \<open>John\<close> and a long
  name whose first token, uppercased, equals the uppercased surname token of
  \<open>John Miller\<close>, and no earlier record matches; yet the result is teacher-not-found,
  not that record's id 8. All names involved are ASCII.
\<close>

theorem resolve_teacher_id_case_counterexample:
  "fst (sendRequest demoClient ''getTeachers'' NoParams demoWorld) =
     (Envelope ''41'' (TeacherList demoTeachers), 41) \<and>
   isASCII ''Miller'' \<and>
   isASCII (hd (SplitSpace (t_LongName (demoTeachers ! 0)))) \<and>
   isASCII (hd (SplitSpace (t_LongName (demoTeachers ! 1)))) \<and>
   t_ID (demoTeachers ! 1) = 8 \<and>
   t_ForeName (demoTeachers ! 1) = ''John'' \<and>
   ToUpperASCII (hd (SplitSpace (t_LongName (demoTeachers ! 1)))) = ToUpperASCII ''Miller'' \<and>
   ToUpperASCII (hd (SplitSpace (t_LongName (demoTeachers ! 0)))) \<noteq> ToUpperASCII ''Miller'' \<and>
   fst (ResolveTeacherID ToUpperASCII demoClient ''John Miller'' demoWorld) = Inl TeacherNotFound"
  by code_simp

subsection \<open>Packed times\<close>

lemma digits_lt10: "n < 10 \<Longrightarrow> digits n = [digit_char n]"
  by (subst digits.simps) simp

lemma digits_ge10: "10 \<le> n \<Longrightarrow> digits n = digits (n div 10) @ [digit_char (n mod 10)]"
  by (subst digits.simps) simp

lemma parseUint_append:
  "parseUint (xs @ ys) acc =
     (case parseUint xs acc of Value a \<Rightarrow> parseUint ys a | SyntaxErr \<Rightarrow> SyntaxErr | RangeErr \<Rightarrow> RangeErr)"
  by (induction xs arbitrary: acc) (simp_all split: option.splits)

lemma of_char_digit_char: "d < 10 \<Longrightarrow> (of_char (digit_char d) :: nat) = 48 + d"
  by (simp add: digit_char_def)

lemma digit_val_digit_char: "d < 10 \<Longrightarrow> digit_val (digit_char d) = Some d"
  by (simp add: digit_val_def of_char_digit_char)

lemma digit_char_not_sign: "d < 10 \<Longrightarrow> digit_char d \<noteq> CHR ''-'' \<and> digit_char d \<noteq> CHR ''+''"
proof -
  assume d: "d < 10"
  have "(of_char (digit_char d) :: nat) \<noteq> of_char CHR ''-''" "(of_char (digit_char d) :: nat) \<noteq> of_char CHR ''+''"
    using d by (simp_all add: of_char_digit_char)
  then show ?thesis by auto
qed

lemma parseUint_digits: "int n \<le> maxUint64 \<Longrightarrow> parseUint (digits n) 0 = Value (int n)"
proof (induction n rule: digits.induct)
  case (1 n)
  show ?case
  proof (cases "n < 10")
    case True
    then show ?thesis by (simp add: digits_lt10 digit_val_digit_char maxUint64_def)
  next
    case False
    have "n div 10 \<le> n" by simp
    then have "int (n div 10) \<le> int n" by (simp only: of_nat_le_iff)
    with "1.prems" have le: "int (n div 10) \<le> maxUint64" by simp
    have cut: "\<not> maxUint64 div 10 + 1 \<le> int (n div 10)"
      using "1.prems" by (simp add: maxUint64_def)
    have recomb: "int (n div 10) * 10 + int (n mod 10) = int n"
      by (simp add: zdiv_int zmod_int)
    have "parseUint (digits n) 0 = parseUint [digit_char (n mod 10)] (int (n div 10))"
      using False "1.IH" [OF False le] by (simp add: digits_ge10 parseUint_append)
    also have "\<dots> = Value (int n)"
      using cut "1.prems" by (simp add: digit_val_digit_char recomb)
    finally show ?thesis .
  qed
qed

lemma digits_head: "\<exists>d rest. d < 10 \<and> digits n = digit_char d # rest"
proof (induction n rule: digits.induct)
  case (1 n)
  show ?case
  proof (cases "n < 10")
    case True
    then show ?thesis by (auto simp: digits_lt10)
  next
    case False
    with 1 obtain d rest where "d < 10" "digits (n div 10) = digit_char d # rest" by blast
    with False have "d < 10 \<and> digits n = digit_char d # (rest @ [digit_char (n mod 10)])"
      by (simp add: digits_ge10)
    then show ?thesis by blast
  qed
qed

lemma strip_sign_digits: "strip_sign (digits n) = (False, digits n)"
proof -
  obtain d rest where d: "d < 10" "digits n = digit_char d # rest"
    using digits_head by blast
  then show ?thesis using digit_char_not_sign [of d] by (simp add: strip_sign_def)
qed

lemma Atoi_digits: "int n \<le> maxInt \<Longrightarrow> Atoi (digits n) = (int n, True)"
proof -
  assume le: "int n \<le> maxInt"
  obtain d rest where d: "d < 10" "digits n = digit_char d # rest"
    using digits_head by blast
  have ne: "digits n \<noteq> []" using d by simp
  have u: "int n \<le> maxUint64" using le by (simp add: maxInt_def maxUint64_def)
  from le ne show ?thesis
    unfolding Atoi_def strip_sign_digits
    by (simp add: parseUint_digits [OF u])
qed

lemma digits_small: "10 \<le> n \<Longrightarrow> n < 100 \<Longrightarrow> digits n = [digit_char (n div 10), digit_char (n mod 10)]"
  by (simp add: digits_ge10 digits_lt10)

lemma digits_large: "100 \<le> n \<Longrightarrow> digits n = digits (n div 100) @ [digit_char (n div 10 mod 10), digit_char (n mod 10)]"
proof -
  assume n: "100 \<le> n"
  have a: "digits n = digits (n div 10) @ [digit_char (n mod 10)]"
    using n by (simp add: digits_ge10)
  have b: "digits (n div 10) = digits (n div 10 div 10) @ [digit_char (n div 10 mod 10)]"
    using n by (simp add: digits_ge10)
  have c: "n div 10 div 10 = n div 100" by (simp add: div_mult2_eq [symmetric])
  show ?thesis unfolding a b c by simp
qed

lemma Atoi_two_digits:
  "a < 10 \<Longrightarrow> b < 10 \<Longrightarrow> Atoi [digit_char a, digit_char b] = (int (a * 10 + b), True)"
  using digit_char_not_sign [of a]
  by (simp add: Atoi_def strip_sign_def digit_val_digit_char maxInt_def maxUint64_def)

lemma Atoi_empty: "Atoi [] = (0, False)"
  by (simp add: Atoi_def strip_sign_def)

lemma decodeTime_small:
  assumes "10 \<le> n" "n < 100"
  shows "decodeTime (int n) = Inr (0, int n)"
proof -
  have s: "Itoa (int n) = [digit_char (n div 10), digit_char (n mod 10)]"
    using assms by (simp add: Itoa_def digits_small)
  have a: "n div 10 < 10" "n mod 10 < 10" using assms by simp_all
  have m: "n div 10 * 10 + n mod 10 = n" by simp
  show ?thesis
    unfolding decodeTime_def s
    by (simp add: Atoi_two_digits [OF a] Atoi_empty m)
qed

lemma decodeTime_large:
  assumes "100 \<le> n" "int n \<le> maxInt"
  shows "decodeTime (int n) = Inr (int (n div 100), int (n mod 100))"
proof -
  have s: "Itoa (int n) = digits (n div 100) @ [digit_char (n div 10 mod 10), digit_char (n mod 10)]"
    using assms by (simp add: Itoa_def digits_large)
  have hle: "int (n div 100) \<le> maxInt"
  proof -
    have "n div 100 \<le> n" by simp
    then have "int (n div 100) \<le> int n" by (simp only: of_nat_le_iff)
    with assms(2) show ?thesis by simp
  qed
  have a: "n div 10 mod 10 < 10" "n mod 10 < 10" by simp_all
  have m: "n div 10 mod 10 * 10 + n mod 10 = n mod 100"
  proof -
    have "n mod 100 = n mod 10 + 10 * (n div 10 mod 10)"
      using mod_mult2_eq [of n 10 10] by simp
    then show ?thesis by simp
  qed
  show ?thesis
    unfolding decodeTime_def s
    by (simp add: Atoi_two_digits [OF a] Atoi_digits [OF hle] m)
qed

lemma decodeTime_div_mod:
  assumes "10 \<le> t" "t \<le> maxInt"
  shows "decodeTime t = Inr (t div 100, t mod 100)"
proof -
  define n where "n = nat t"
  have t: "t = int n" and n10: "10 \<le> n" using assms by (simp_all add: n_def)
  show ?thesis
  proof (cases "n < 100")
    case True
    with n10 show ?thesis unfolding t by (simp add: decodeTime_small)
  next
    case False
    then have big: "100 \<le> n" by simp
    have le: "int n \<le> maxInt" using assms(2) t by simp
    show ?thesis unfolding t using decodeTime_large [OF big le] by (simp add: zdiv_int zmod_int)
  qed
qed

lemma short_below_ten: "0 \<le> t \<Longrightarrow> t < 10 \<Longrightarrow> length (Itoa t) = 1"
  by (simp add: Itoa_def digits_lt10)

lemma decodeTime_one_digit: "0 \<le> t \<Longrightarrow> t < 10 \<Longrightarrow> decodeTime t = Inl Panic"
  by (simp add: decodeTime_def short_below_ten)

text \<open>
  C6, as it holds. For every packed time \<open>t\<close> with \<open>10 \<le> t \<le> 2359\<close>, whatever
  its last two digits, the timetable decoding yields the hour \<open>t div 100\<close> from the
  characters before the last two and the minute \<open>t mod 100\<close> from the last two, and
  \<open>hour * 100 + minute\<close> is \<open>t\<close> again.
\<close>

theorem packed_time_roundtrip:
  assumes "10 \<le> t" "t \<le> 2359"
  shows "decodeTime t = Inr (t div 100, t mod 100) \<and> reencode (decodeTime t) = Inr t"
proof -
  have "t \<le> maxInt" using assms(2) by (simp add: maxInt_def)
  with assms(1) have "decodeTime t = Inr (t div 100, t mod 100)" by (rule decodeTime_div_mod)
  then show ?thesis by (simp add: reencode_def)
qed

theorem packed_time_roundtrip_witness:
  "(10::int) \<le> 805 \<and> (805::int) \<le> 2359 \<and>
   decodeTime 805 = Inr (8, 5) \<and> reencode (decodeTime 805) = Inr 805"
  using packed_time_roundtrip [of 805] by (simp add: reencode_def)

text \<open>
  C6 as stated fails: the packed time 5 (five minutes past midnight) lies in the stated
  range and its minute is below 60, but its decimal string has one character, the slice
  bound is negative, and the decoding faults instead of giving a time to re-encode.
\<close>

theorem packed_time_one_digit_counterexample:
  "(1::int) \<le> 5 \<and> (5::int) \<le> 2359 \<and> (5::int) mod 100 < 60 \<and>
   decodeTime 5 = Inl Panic \<and> reencode (decodeTime 5) \<noteq> Inr 5"
  by code_simp

subsection \<open>The period tables\<close>

text \<open>
  C7. \<open>GetLessonNrByStart\<close> and \<open>GetLessonNrByEnd\<close> are total functions of the hour
  and the minute that realise exactly the fixed period tables: start hour 8 gives period 1
  at minute 0 and 2 at minute 50, hours 9 to 16 give periods 3 to 10, hour 17 gives 11 at
  minute 0 and 12 at minute 45, hours 18 to 20 give 13 to 15; end hours 8 to 15 give
  periods 1 to 8, hour 16 gives 9 at minute 0 and 10 at minute 50, hours 17 to 21 give 11
  to 15; every other input gives the sentinel \<open>-1\<close>.
\<close>

theorem period_tables_exact:
  "GetLessonNrByStart t = periodFromStart (Hour t) (Minute t) \<and>
   GetLessonNrByEnd t = periodFromEnd (Hour t) (Minute t)"
  unfolding GetLessonNrByStart_def GetLessonNrByEnd_def periodFromStart_def periodFromEnd_def
  by auto

subsection \<open>Preconditions on the session state\<close>

text \<open>
  C8. \<open>Authenticate\<close> on a client that is already authenticated fails with
  already-authenticated and leaves the client, its token included, and the world (no
  request is sent) as they were.
\<close>

theorem authenticate_twice_rejected:
  "Authenticated client \<Longrightarrow> Authenticate client w = (Some AlreadyAuthenticated, client, w)"
  by (simp add: Authenticate_def)

theorem authenticate_twice_rejected_witness:
  "Authenticated demoClient \<and>
   Authenticate demoClient demoWorld = (Some AlreadyAuthenticated, demoClient, demoWorld)"
  using authenticate_twice_rejected [of demoClient demoWorld]
  by (simp add: demoClient_def)

text \<open>
  C9. Each operation that needs an authenticated session (the three timetable
  retrievals, the three id-list resolvers, the two name resolvers and \<open>Close\<close>), called
  on a client whose \<open>Authenticated\<close> flag is false, fails with not-authenticated and
  leaves the world unchanged: the list of requests sent does not grow.
\<close>

theorem unauthenticated_fails_fast:
  "\<not> Authenticated client \<Longrightarrow>
     GetTimetableOfTeacher client s e w = (Inl NotAuthenticated, w) \<and>
     GetTimetableOfClass client s e cn w = (Inl NotAuthenticated, w) \<and>
     GetTimetableOfSpecificTeacher toUpper client s e tn w = (Inl NotAuthenticated, w) \<and>
     ResolveTeachers client ids w = (Inl NotAuthenticated, w) \<and>
     ResolveRooms client ids w = (Inl NotAuthenticated, w) \<and>
     ResolveClasses client ids w = (Inl NotAuthenticated, w) \<and>
     ResolveTeacherID toUpper client tn w = (Inl NotAuthenticated, w) \<and>
     ResolveClassID client cn w = (Inl NotAuthenticated, w) \<and>
     Close client w = (Some NotAuthenticated, client, w)"
  by (simp add: resolver_defs timetable_defs Close_def)

theorem unauthenticated_fails_fast_witness:
  "\<not> Authenticated (newClient ''jdoe'' ''secret'') \<and>
   GetTimetableOfTeacher (newClient ''jdoe'' ''secret'') demoDay demoDay demoWorld =
     (Inl NotAuthenticated, demoWorld) \<and>
   ResolveTeachers (newClient ''jdoe'' ''secret'') [7] demoWorld =
     (Inl NotAuthenticated, demoWorld) \<and>
   Close (newClient ''jdoe'' ''secret'') demoWorld =
     (Some NotAuthenticated, newClient ''jdoe'' ''secret'', demoWorld) \<and>
   sent demoWorld = []"
  using unauthenticated_fails_fast [where client = "newClient ''jdoe'' ''secret''"
      and s = demoDay and e = demoDay and w = demoWorld and ids = "[7]"]
  by (simp add: newClient_def demoWorld_def)

text \<open>
  C10. \<open>Close\<close> on an authenticated client sets \<open>Closed\<close> and clears
  \<open>Authenticated\<close> before the logout request goes out. The client it leaves behind is
  the same whether the transport succeeds or fails: closed, not authenticated, with the
  token it had; a transport failure only shows in the returned error.
\<close>

theorem close_not_rolled_back:
  "Authenticated client \<Longrightarrow>
     Close client w =
       (if fst (fst (sendRequest client ''logout'' NoParams w)) = TransportError
        then Some NetworkError else None,
        client\<lparr>Closed := True, Authenticated := False\<rparr>,
        snd (sendRequest client ''logout'' NoParams w)) \<and>
     Closed (fst (snd (Close client w))) \<and>
     \<not> Authenticated (fst (snd (Close client w))) \<and>
     SessionID (fst (snd (Close client w))) = SessionID client"
  by (simp add: Close_def sendRequest_def roundTrip_def Let_def)

theorem close_not_rolled_back_witness:
  "Authenticated demoClient \<and>
   fst (Close demoClient offlineWorld) = Some NetworkError \<and>
   fst (snd (Close demoClient offlineWorld)) =
     demoClient\<lparr>Closed := True, Authenticated := False\<rparr> \<and>
   SessionID (fst (snd (Close demoClient offlineWorld))) = ''ABC123''"
proof -
  have h: "Authenticated demoClient" by code_simp
  have t: "fst (fst (sendRequest demoClient ''logout'' NoParams offlineWorld)) = TransportError"
    by code_simp
  have s: "SessionID demoClient = ''ABC123''" by code_simp
  show ?thesis using h s t close_not_rolled_back [OF h, of offlineWorld] by simp
qed

end
